theory Spec2Isabelle
  imports Main
begin

section \<open>Release-log review tool: strings, message transformer, document model\<close>

text \<open>
  Shallow embedding of \<^verbatim>\<open>utils/git_log_review_commits_advanced.py\<close>.
  A Python \<^verbatim>\<open>str\<close> is modelled as a \<^typ>\<open>string\<close>, one \<^typ>\<open>char\<close> per code point, so the
  model covers the texts whose code points are below 256. The character classes of the
  regular expressions (\<^verbatim>\<open>\s\<close>, \<^verbatim>\<open>\W\<close>, IGNORECASE) are written out for that range as
  Python 3 defines them for \<^verbatim>\<open>str\<close> patterns.
  A raise of the source is a value \<open>Inl e\<close>; the tool catches no exception, so a raise
  ends the run and the model after it is not observable.
\<close>

subsection \<open>Python string primitives\<close>

abbreviation NL :: char where "NL \<equiv> CHR 0x0A"
abbreviation QUOTE :: char where "QUOTE \<equiv> CHR 0x27"

datatype error = TypeError | IndexError | ValueError

text \<open>\<^verbatim>\<open>s.startswith(p)\<close>.\<close>
definition startswith :: "string \<Rightarrow> string \<Rightarrow> bool" where
  "startswith s p = (take (length p) s = p)"

text \<open>\<^verbatim>\<open>p in s\<close> for strings.\<close>
fun contains :: "string \<Rightarrow> string \<Rightarrow> bool" where
  "contains [] p = (p = [])"
| "contains (c # cs) p = (startswith (c # cs) p \<or> contains cs p)"

text \<open>\<^verbatim>\<open>s.find(p)\<close>: the lowest index where \<open>p\<close> occurs, \<open>-1\<close> when it does not.\<close>
fun find_from :: "nat \<Rightarrow> string \<Rightarrow> string \<Rightarrow> int" where
  "find_from i [] p = (if p = [] then int i else -1)"
| "find_from i (c # cs) p = (if startswith (c # cs) p then int i else find_from (Suc i) cs p)"

definition find :: "string \<Rightarrow> string \<Rightarrow> int" where
  "find s p = find_from 0 s p"

text \<open>\<^verbatim>\<open>s.rfind(p)\<close>: the highest index where \<open>p\<close> occurs, \<open>-1\<close> when it does not.\<close>
fun rfind_from :: "nat \<Rightarrow> string \<Rightarrow> string \<Rightarrow> int" where
  "rfind_from i [] p = (if p = [] then int i else -1)"
| "rfind_from i (c # cs) p =
     (let r = rfind_from (Suc i) cs p
      in if 0 \<le> r then r else if startswith (c # cs) p then int i else -1)"

definition rfind :: "string \<Rightarrow> string \<Rightarrow> int" where
  "rfind s p = rfind_from 0 s p"

text \<open>\<^verbatim>\<open>s.strip(chars)\<close>.\<close>
definition strip :: "string \<Rightarrow> string \<Rightarrow> string" where
  "strip s chars =
     rev (dropWhile (\<lambda>c. c \<in> set chars) (rev (dropWhile (\<lambda>c. c \<in> set chars) s)))"

text \<open>\<^verbatim>\<open>s.split(sep)[0]\<close> for a non-empty separator: the text before its first occurrence.\<close>
fun split_first :: "string \<Rightarrow> string \<Rightarrow> string" where
  "split_first [] sep = []"
| "split_first (c # cs) sep = (if startswith (c # cs) sep then [] else c # split_first cs sep)"

text \<open>\<^verbatim>\<open>s.replace(a, b)\<close> for single characters.\<close>
definition replace_char :: "string \<Rightarrow> char \<Rightarrow> char \<Rightarrow> string" where
  "replace_char s a b = map (\<lambda>c. if c = a then b else c) s"

text \<open>\<^verbatim>\<open>sep.join(xs)\<close>.\<close>
fun join :: "string \<Rightarrow> string list \<Rightarrow> string" where
  "join sep [] = []"
| "join sep [x] = x"
| "join sep (x # y # ys) = x @ sep @ join sep (y # ys)"

text \<open>
  \<^verbatim>\<open>fmt % args\<close> with the conversions the tool uses (\<^verbatim>\<open>%s\<close>, \<^verbatim>\<open>%d\<close>, \<^verbatim>\<open>%%\<close>); every argument
  is passed already converted by \<^verbatim>\<open>str\<close>. Python raises \<^verbatim>\<open>TypeError\<close> when the format has
  more conversions than arguments and also when arguments are left over at the end.
\<close>
fun py_format :: "string \<Rightarrow> string list \<Rightarrow> error + string" where
  "py_format [] [] = Inr []"
| "py_format [] (a # as) = Inl TypeError"
| "py_format [c] as =
     (if c = CHR ''%'' then Inl ValueError
      else (case py_format [] as of Inl e \<Rightarrow> Inl e | Inr r \<Rightarrow> Inr (c # r)))"
| "py_format (c # d # fs) as =
     (if c \<noteq> CHR ''%'' then
        (case py_format (d # fs) as of Inl e \<Rightarrow> Inl e | Inr r \<Rightarrow> Inr (c # r))
      else if d = CHR ''%'' then
        (case py_format fs as of Inl e \<Rightarrow> Inl e | Inr r \<Rightarrow> Inr (CHR ''%'' # r))
      else if d = CHR ''s'' \<or> d = CHR ''d'' then
        (case as of
           [] \<Rightarrow> Inl TypeError
         | a # as' \<Rightarrow> (case py_format fs as' of Inl e \<Rightarrow> Inl e | Inr r \<Rightarrow> Inr (a @ r)))
      else Inl ValueError)"

subsection \<open>Regular expressions of the message transformer\<close>

text \<open>
  The three compiled patterns are embedded as matchers: a matcher is given the text
  from a start position on and returns the captured groups and the length of the match
  there. All three patterns consume at least one character.

  Character classes, for code points below 256: \<^verbatim>\<open>[0-9]\<close>, \<^verbatim>\<open>[0-9a-fA-F]\<close>,
  \<^verbatim>\<open>\s\<close> (the ASCII white space, the separators 0x1C to 0x1F, NEL and the no-break space)
  and \<^verbatim>\<open>\w\<close> (alphanumeric code points and the underscore).
\<close>

definition is_digit :: "char \<Rightarrow> bool" where
  "is_digit c = (c \<in> set ''0123456789'')"

definition is_hex :: "char \<Rightarrow> bool" where
  "is_hex c = (c \<in> set ''0123456789abcdefABCDEF'')"

definition is_space :: "char \<Rightarrow> bool" where
  "is_space c = (c \<in> set [CHR 0x09, CHR 0x0A, CHR 0x0B, CHR 0x0C, CHR 0x0D,
                             CHR 0x1C, CHR 0x1D, CHR 0x1E, CHR 0x1F, CHR 0x20,
                             CHR 0x85, CHR 0xA0])"

definition is_word :: "char \<Rightarrow> bool" where
  "is_word c =
     (c \<in> set ''abcdefghijklmnopqrstuvwxyzABCDEFGHIJKLMNOPQRSTUVWXYZ0123456789_''
      \<or> c \<in> set [CHR 0xAA, CHR 0xB2, CHR 0xB3, CHR 0xB5, CHR 0xB9, CHR 0xBA,
                  CHR 0xBC, CHR 0xBD, CHR 0xBE]
      \<or> (0xC0 \<le> (of_char c :: nat) \<and> c \<noteq> CHR 0xD7 \<and> c \<noteq> CHR 0xF7))"

text \<open>The first alternative that matches, in the order the alternatives are written.\<close>
fun first_match :: "'a option list \<Rightarrow> 'a option" where
  "first_match [] = None"
| "first_match (None # xs) = first_match xs"
| "first_match (Some x # xs) = Some x"

text \<open>
  \<^verbatim>\<open>pattern.sub(repl, s)\<close>: the matches are searched from left to right, each search
  starting where the previous match ended; unmatched characters are copied. The counter
  is the number of characters of the current match still to be skipped.
\<close>
fun re_sub_aux ::
  "(string \<Rightarrow> (string list \<times> nat) option) \<Rightarrow> (string list \<Rightarrow> string) \<Rightarrow> nat \<Rightarrow> string \<Rightarrow> string"
where
  "re_sub_aux m repl k [] = []"
| "re_sub_aux m repl (Suc k) (c # cs) = re_sub_aux m repl k cs"
| "re_sub_aux m repl 0 (c # cs) =
     (case m (c # cs) of
        None \<Rightarrow> c # re_sub_aux m repl 0 cs
      | Some (gs, n) \<Rightarrow> repl gs @ re_sub_aux m repl (n - 1) cs)"

definition re_sub ::
  "(string \<Rightarrow> (string list \<times> nat) option) \<Rightarrow> (string list \<Rightarrow> string) \<Rightarrow> string \<Rightarrow> string"
where
  "re_sub m repl s = re_sub_aux m repl 0 s"

text \<open>\<^verbatim>\<open>pattern.search(s) is not None\<close>.\<close>
fun re_search :: "(string \<Rightarrow> (string list \<times> nat) option) \<Rightarrow> string \<Rightarrow> bool" where
  "re_search m [] = False"
| "re_search m (c # cs) = (m (c # cs) \<noteq> None \<or> re_search m cs)"

text \<open>\<^verbatim>\<open>re_bugify = re.compile(r"T([0-9]{1,})")\<close>; the digits are matched greedily.\<close>
definition re_bugify :: "string \<Rightarrow> (string list \<times> nat) option" where
  "re_bugify s =
     (case s of
        [] \<Rightarrow> None
      | c # cs \<Rightarrow>
          (let ds = takeWhile is_digit cs
           in if c = CHR ''T'' \<and> ds \<noteq> [] then Some ([ds], 1 + length ds) else None))"

text \<open>
  \<^verbatim>\<open>re_commitify = re.compile(r"\W(r(?:B|BA|BAC|BTS)[0-9a-fA-F]{6,})")\<close>.
  The alternatives are tried in their order, each followed by the greedy run of
  hexadecimal digits, of which at least six are needed.
\<close>
definition commitify_alt :: "string \<Rightarrow> string \<Rightarrow> (string list \<times> nat) option" where
  "commitify_alt t alt =
     (let hs = takeWhile is_hex (drop (length alt) t)
      in if startswith t alt \<and> 6 \<le> length hs
         then Some ([CHR ''r'' # alt @ hs], 2 + length alt + length hs) else None)"

definition re_commitify :: "string \<Rightarrow> (string list \<times> nat) option" where
  "re_commitify s =
     (case s of
        w # r # t \<Rightarrow>
          (if \<not> is_word w \<and> r = CHR ''r''
           then first_match (map (commitify_alt t) [''B'', ''BA'', ''BAC'', ''BTS''])
           else None)
      | _ \<Rightarrow> None)"

text \<open>A literal under IGNORECASE, given in lower and in upper case; returns the rest.\<close>
fun lit_ci :: "string \<Rightarrow> string \<Rightarrow> string \<Rightarrow> string option" where
  "lit_ci [] [] t = Some t"
| "lit_ci (l # ls) (u # us) (c # t) = (if c = l \<or> c = u then lit_ci ls us t else None)"
| "lit_ci _ _ _ = None"

text \<open>
  The part of \<^verbatim>\<open>re_prettify\<close> after its first group,
  \<^verbatim>\<open>(Fix(?:ing|es)?\s*(?:for)?\s*T([0-9]{1,}))\s*[-:,]*\s*\<close> under IGNORECASE, matched at the
  start of \<open>t\<close>: returns group 3, the length of group 2 and the length of the whole part.
  Every quantifier here is greedy and what follows it either cannot start with a
  character it could give back, or matches the empty text, so the first, longest choice
  is the one the backtracking matcher ends with.
\<close>
definition prettify_fix :: "string \<Rightarrow> (string \<times> nat \<times> nat) option" where
  "prettify_fix t =
     (case lit_ci ''fix'' ''FIX'' t of
        None \<Rightarrow> None
      | Some t1 \<Rightarrow>
          (let t2 = (case lit_ci ''ing'' ''ING'' t1 of
                       Some u \<Rightarrow> u
                     | None \<Rightarrow> (case lit_ci ''es'' ''ES'' t1 of Some u \<Rightarrow> u | None \<Rightarrow> t1));
               t3 = dropWhile is_space t2;
               t4 = (case lit_ci ''for'' ''FOR'' t3 of Some u \<Rightarrow> u | None \<Rightarrow> t3);
               t5 = dropWhile is_space t4
           in (case t5 of
                 [] \<Rightarrow> None
               | c # t6 \<Rightarrow>
                   (let ds = takeWhile is_digit t6;
                        t7 = dropWhile is_digit t6;
                        t8 = dropWhile is_space t7;
                        t9 = dropWhile (\<lambda>x. x \<in> set ''-:,'') t8;
                        t10 = dropWhile is_space t9
                    in if (c = CHR ''t'' \<or> c = CHR ''T'') \<and> ds \<noteq> []
                       then Some (ds, length t - length t7, length t - length t10)
                       else None))))"

text \<open>
  \<^verbatim>\<open>re_prettify = re.compile(r"(.{,20}?)(Fix...)\s*[-:,]*\s*", re.IGNORECASE)\<close>: the first
  group is lazy, so its lengths are tried from 0 up to 20; the dot matches any character
  but the newline.
\<close>
definition prettify_at :: "string \<Rightarrow> nat \<Rightarrow> (string list \<times> nat) option" where
  "prettify_at s k =
     (if k \<le> length s \<and> NL \<notin> set (take k s)
      then (case prettify_fix (drop k s) of
              None \<Rightarrow> None
            | Some (ds, n2, n) \<Rightarrow> Some ([take k s, take n2 (drop k s), ds], k + n))
      else None)"

definition re_prettify :: "string \<Rightarrow> (string list \<times> nat) option" where
  "re_prettify s = first_match (map (prettify_at s) [0..<21])"

subsection \<open>Message transformer and entry renderer\<close>

text \<open>The fields of a commit the tool reads; \<open>sha1\<close> is \<^verbatim>\<open>c.sha1.decode()\<close>.\<close>
record commit =
  sha1 :: string
  author :: string
  body :: string

text \<open>\<^verbatim>\<open>c.body.split("\n\n")[0].strip(" :.;-\n").replace("\n", " ")\<close>\<close>
definition gen_commit_summary :: "commit \<Rightarrow> string" where
  "gen_commit_summary c =
     replace_char (strip (split_first (body c) [NL, NL]) (NL # '' :.;-'')) NL CHR '' ''"

text \<open>The replacement templates \<^verbatim>\<open>r"Fix {{BugReport|\3}}: \1"\<close>, \<^verbatim>\<open>r"{{BugReport|\1}}"\<close> and
  \<^verbatim>\<open>r"{{GitCommit|\1}}"\<close>, on the list of groups.\<close>
definition prettify_repl :: "string list \<Rightarrow> string" where
  "prettify_repl gs = ''Fix {{BugReport|'' @ gs ! 2 @ ''}}: '' @ gs ! 0"

definition bugify_repl :: "string list \<Rightarrow> string" where
  "bugify_repl gs = ''{{BugReport|'' @ gs ! 0 @ ''}}''"

definition commitify_repl :: "string list \<Rightarrow> string" where
  "commitify_repl gs = ''{{GitCommit|'' @ gs ! 0 @ ''}}''"

text \<open>
  Returns the prose and the value the source stores in \<^verbatim>\<open>unreported[0]\<close>, which starts
  as \<^verbatim>\<open>False\<close> and is set when the first substitution leaves the summary as it is.
\<close>
definition gen_commit_message_pretty :: "commit \<Rightarrow> string \<times> bool" where
  "gen_commit_message_pretty c =
     (let body0 = gen_commit_summary c;
          tbody = re_sub re_prettify prettify_repl body0;
          unreported = (tbody = body0);
          tbody' = (if unreported then ''Fix unreported: '' @ body0 else tbody);
          body1 = re_sub re_bugify bugify_repl tbody';
          body2 = re_sub re_commitify commitify_repl body1
      in (body2, unreported))"

text \<open>
  \<^verbatim>\<open>gen_commit_pretty(c, unreported, rstate)\<close>; \<open>None\<close> is the default \<^verbatim>\<open>rstate=None\<close>. Both
  branches pass the same three arguments to their format string.
\<close>
definition gen_commit_pretty :: "commit \<Rightarrow> string option \<Rightarrow> error + (string \<times> bool)" where
  "gen_commit_pretty c rstate =
     (let (prose, unreported) = gen_commit_message_pretty c;
          line = (case rstate of
                    Some r \<Rightarrow>
                      py_format ''* [%s] %s ({{GitCommit|rB%s}}).'' [r, prose, take 10 (sha1 c)]
                  | None \<Rightarrow>
                      py_format ''* %s ({{GitCommit|rB%s}}).'' [''None'', prose, take 10 (sha1 c)])
      in (case line of Inl e \<Rightarrow> Inl e | Inr l \<Rightarrow> Inr (l, unreported)))"

definition gen_commit_unprettify :: "string \<Rightarrow> string" where
  "gen_commit_unprettify body0 =
     (let body1 = (if startswith body0 ''* [''
                   then (let end = find body0 '']''
                         in if 0 < end then drop (nat (end + 2)) body0 else body0)
                   else body0);
          start = rfind body1 ''({{GitCommit|rB''
      in if 0 < start then take (nat (start - 1)) body1 else body1)"

subsection \<open>The category tree\<close>

definition BUGFIX_CATEGORIES :: "(string \<times> string list) list" where
  "BUGFIX_CATEGORIES =
     [(''Objects / Animation / GP'',
         [''Animation'', ''Constraints'', ''Grease Pencil'', ''Objects'', ''Dependency Graph'']),
      (''Data / Geometry'',
         [''Armatures'', ''Curve/Text Editing'', ''Mesh Editing'', ''Meta Editing'', ''Modifiers'',
          ''Material / Texture'']),
      (''Physics / Simulations / Sculpt / Paint'',
         [''Particles'', ''Physics / Hair / Simulations'', ''Sculpting / Painting'']),
      (''Image / Video / Render'',
         [''Image / UV Editing'', ''Masking'', ''Motion Tracking'', ''Movie Clip Editor'',
          ''Nodes / Compositor'', ''Render'', ''Render: Cycles'', ''Render: Freestyle'', ''Sequencer'']),
      (''UI / Spaces / Transform'',
         [''3D View'', ''Input (NDOF / 3D Mouse)'', ''Outliner'', ''Text Editor'', ''Transform'',
          ''User Interface'']),
      (''Game Engine'', []),
      (''System / Misc'',
         [''Audio'', ''Collada'', ''File I/O'', ''Other'', ''Python'', ''System''])]"

text \<open>\<^verbatim>\<open>xs[i]\<close> on a tuple or list, with Python's negative indices and its \<^verbatim>\<open>IndexError\<close>.\<close>
definition py_index :: "'a list \<Rightarrow> int \<Rightarrow> error + 'a" where
  "py_index xs i =
     (if 0 \<le> i \<and> i < int (length xs) then Inr (xs ! nat i)
      else if i < 0 \<and> - int (length xs) \<le> i then Inr (xs ! nat (int (length xs) + i))
      else Inl IndexError)"

subsection \<open>The release log\<close>

text \<open>
  The dictionary \<^verbatim>\<open>release_log\<close>: its three reserved keys are fields, its other keys
  (a main category name, or \<^verbatim>\<open>None\<close>) are the map \<open>CATS\<close>, which gives the pair of
  dictionaries (reported, unreported), from a sub-category name or \<^verbatim>\<open>None\<close> to the list of
  entries. No heading can create a key equal to a reserved one, since the parser stores
  under \<^verbatim>\<open>None\<close> or under a name of the category tree only.
\<close>
type_synonym bucket = "string option \<rightharpoonup> string list"

record release_log =
  HEADER :: string
  COUNT :: "nat \<times> nat"
  RSTATES :: "string \<rightharpoonup> string list"
  CATS :: "string option \<rightharpoonup> (bucket \<times> bucket)"

text \<open>\<^verbatim>\<open>d.get(k, [])\<close>\<close>
definition get_list :: "('k \<rightharpoonup> string list) \<Rightarrow> 'k \<Rightarrow> string list" where
  "get_list d k = (case d k of None \<Rightarrow> [] | Some es \<Rightarrow> es)"

text \<open>\<^verbatim>\<open>d.setdefault(k, []).append(e)\<close>\<close>
definition setdefault_append :: "('k \<rightharpoonup> string list) \<Rightarrow> 'k \<Rightarrow> string \<Rightarrow> ('k \<rightharpoonup> string list)" where
  "setdefault_append d k e = d(k \<mapsto> get_list d k @ [e])"

text \<open>\<^verbatim>\<open>release_log.get(main_cat, ({}, {}))\<close>\<close>
definition get_cat_data :: "release_log \<Rightarrow> string option \<Rightarrow> bucket \<times> bucket" where
  "get_cat_data rl k = (case CATS rl k of None \<Rightarrow> (Map.empty, Map.empty) | Some d \<Rightarrow> d)"

text \<open>
  Appending an entry as both the parser and \<^verbatim>\<open>write_release_log\<close> do:
  \<^verbatim>\<open>release_log.setdefault(main_cat, ({}, {}))\<close>, then \<^verbatim>\<open>setdefault(sub_cat, []).append(entry)\<close>
  on the reported or the unreported dictionary, then the matching counter.
\<close>
definition append_entry ::
  "release_log \<Rightarrow> string option \<Rightarrow> string option \<Rightarrow> bool \<Rightarrow> string \<Rightarrow> release_log" where
  "append_entry rl main_cat sub_cat unreported entry =
     (let (main_cat_data, main_cat_data_unreported) = get_cat_data rl main_cat
      in if unreported
         then rl\<lparr>CATS := (CATS rl)(main_cat \<mapsto>
                     (main_cat_data, setdefault_append main_cat_data_unreported sub_cat entry)),
                 COUNT := (fst (COUNT rl), snd (COUNT rl) + 1)\<rparr>
         else rl\<lparr>CATS := (CATS rl)(main_cat \<mapsto>
                     (setdefault_append main_cat_data sub_cat entry, main_cat_data_unreported)),
                 COUNT := (fst (COUNT rl) + 1, snd (COUNT rl))\<rparr>)"

text \<open>
  Lines 409 to 423 of \<^verbatim>\<open>write_release_log\<close>: the category names are looked up, the entry is
  rendered and appended, and when the release state is a key of \<^verbatim>\<open>__RSTATES__\<close> the entry
  rendered by \<^verbatim>\<open>gen_commit_pretty(c)\<close> is appended to that list.
\<close>
definition write_release_log_add ::
  "release_log \<Rightarrow> commit \<Rightarrow> int \<times> int option \<Rightarrow> string option \<Rightarrow> error + release_log" where
  "write_release_log_add rl c cat rstate =
     (case py_index BUGFIX_CATEGORIES (fst cat) of
        Inl e \<Rightarrow> Inl e
      | Inr (main_cat, sub_cats) \<Rightarrow>
          (case (case snd cat of
                   None \<Rightarrow> Inr None
                 | Some j \<Rightarrow> (case py_index sub_cats j of Inl e \<Rightarrow> Inl e | Inr s \<Rightarrow> Inr (Some s))) of
             Inl e \<Rightarrow> Inl e
           | Inr sub_cat \<Rightarrow>
               (case gen_commit_pretty c rstate of
                  Inl e \<Rightarrow> Inl e
                | Inr (entry, unreported) \<Rightarrow>
                    (let rl' = append_entry rl (Some main_cat) sub_cat unreported entry
                     in case rstate of
                          None \<Rightarrow> Inr rl'
                        | Some r \<Rightarrow>
                            (case RSTATES rl' r of
                               None \<Rightarrow> Inr rl'
                             | Some es \<Rightarrow>
                                 (case gen_commit_pretty c None of
                                    Inl e \<Rightarrow> Inl e
                                  | Inr (plain, u) \<Rightarrow>
                                      Inr (rl'\<lparr>RSTATES := (RSTATES rl')(r \<mapsto> es @ [plain])\<rparr>)))))))"

subsection \<open>Rendering the document\<close>

definition IGNORE_START_LINE :: string where
  "IGNORE_START_LINE = ''<!-- IGNORE_START -->''"

definition IGNORE_END_LINE :: string where
  "IGNORE_END_LINE = ''<!-- IGNORE_END -->''"

text \<open>\<^verbatim>\<open>"%d" % n\<close> for a count.\<close>
function str_nat :: "nat \<Rightarrow> string" where
  "str_nat n = (if n < 10 then [''0123456789'' ! n] else str_nat (n div 10) @ [''0123456789'' ! (n mod 10)])"
  by pat_completeness auto
termination
  by (relation "measure id") auto

text \<open>
  The inner loop \<^verbatim>\<open>for data in main_cat_data\<close> over the reported and the unreported
  dictionary: the entries under the key, each non-empty list followed by an empty line.
\<close>
definition data_lines :: "bucket \<times> bucket \<Rightarrow> string option \<Rightarrow> string list" where
  "data_lines main_cat_data k =
     concat (map (\<lambda>data. let entries = get_list data k
                          in if entries \<noteq> [] then entries @ [[]] else [])
                 [fst main_cat_data, snd main_cat_data])"

text \<open>\<^verbatim>\<open>sub_cat_lines\<close> at the end of one round of the loop over the sub-categories.\<close>
definition sub_cat_lines :: "bucket \<times> bucket \<Rightarrow> string \<Rightarrow> string list" where
  "sub_cat_lines main_cat_data sub_cat =
     (''=== '' @ sub_cat @ '' ==='') # data_lines main_cat_data (Some sub_cat)"

text \<open>\<^verbatim>\<open>main_cat_lines\<close> at the end of one round of the loop over \<^verbatim>\<open>BUGFIX_CATEGORIES\<close>.\<close>
definition main_cat_lines :: "release_log \<Rightarrow> string \<times> string list \<Rightarrow> string list" where
  "main_cat_lines rl cat =
     (let main_cat_data = get_cat_data rl (Some (fst cat));
          l0 = (''== '' @ fst cat @ '' =='') # data_lines main_cat_data None;
          l1 = (if length l0 = 1 then l0 @ [[]] else l0)
      in foldl (\<lambda>acc sub_cat.
                  let scl = sub_cat_lines main_cat_data sub_cat
                  in if 2 < length scl then acc @ scl else acc)
               l1 (snd cat))"

text \<open>The trailing section for the key \<^verbatim>\<open>None\<close> of the release log.\<close>
definition unsorted_lines :: "release_log \<Rightarrow> string list" where
  "unsorted_lines rl =
     (case CATS rl None of
        None \<Rightarrow> []
      | Some main_cat_data \<Rightarrow>
          (let mcl = (''== UNSORTED =='' @ [NL, NL]) # data_lines main_cat_data None
           in if 2 < length mcl then mcl else []))"

text \<open>The list \<^verbatim>\<open>lines\<close> when the file is opened for writing.\<close>
definition release_log_lines :: "release_log \<Rightarrow> string list" where
  "release_log_lines rl =
     foldl (\<lambda>lines cat. let mcl = main_cat_lines rl cat
                         in if 2 < length mcl then lines @ mcl else lines)
           [] BUGFIX_CATEGORIES
     @ unsorted_lines rl"

definition NOTE :: string where
  "NOTE = ''{{Note|Note|Before RC1 (i.e. during regular development of next version in main ''
     @ ''branch), only fixes of issues which already existed in previous official releases are ''
     @ ''listed here. Fixes for regressions introduced since last release, or for new ''
     @ ''features, are '' @ [QUOTE, QUOTE, QUOTE] @ ''not'' @ [QUOTE, QUOTE, QUOTE]
     @ '' listed here.<br/>For following RCs and final release, ''
     @ [QUOTE, QUOTE, QUOTE] @ ''all'' @ [QUOTE, QUOTE, QUOTE] @ '' backported fixes are listed.}}''"

text \<open>The section of one tracked release state in the closing ignore block.\<close>
definition rstate_section :: "release_log \<Rightarrow> string \<Rightarrow> string" where
  "rstate_section rl rst =
     (let entries = get_list (RSTATES rl) rst
      in if entries \<noteq> []
         then ''== '' @ rst @ '' =='' @ [NL]
              @ ''For '' @ rst @ '', '' @ str_nat (length entries) @ '' bugs were fixed:'' @ [NL, NL]
              @ join [NL] entries @ [NL, NL]
         else [])"

text \<open>Everything \<^verbatim>\<open>write_release_log\<close> writes to the file, lines 461 to 485.\<close>
definition release_log_text :: "release_log \<Rightarrow> string list \<Rightarrow> string" where
  "release_log_text rl rstate_list =
     HEADER rl
     @ IGNORE_START_LINE @ [NL]
     @ ''Total fixed bugs: '' @ str_nat (fst (COUNT rl) + snd (COUNT rl))
     @ '' ('' @ str_nat (fst (COUNT rl)) @ '' from tracker, '' @ str_nat (snd (COUNT rl))
     @ '' reported/found by other ways).'' @ [NL, NL]
     @ NOTE @ [NL] @ IGNORE_END_LINE @ [NL, NL]
     @ join [NL] (release_log_lines rl) @ [NL]
     @ IGNORE_START_LINE @ [NL, NL] @ ''<hr/>'' @ [NL, NL]
     @ concat (map (rstate_section rl) rstate_list)
     @ IGNORE_END_LINE @ [NL]"

text \<open>
  \<^verbatim>\<open>write_release_log(path, release_log, c, cat, rstate, rstate_list)\<close>: the updated release
  log and the new content of the file.
\<close>
definition write_release_log ::
  "release_log \<Rightarrow> commit \<Rightarrow> int \<times> int option \<Rightarrow> string option \<Rightarrow> string list
     \<Rightarrow> error + (release_log \<times> string)" where
  "write_release_log rl c cat rstate rstate_list =
     (case write_release_log_add rl c cat rstate of
        Inl e \<Rightarrow> Inl e
      | Inr rl' \<Rightarrow> Inr (rl', release_log_text rl' rstate_list))"

subsection \<open>Reading an existing document\<close>

abbreviation CR :: char where "CR \<equiv> CHR 0x0D"

text \<open>
  A file opened in text mode for reading: \<^verbatim>\<open>"\r\n"\<close> and \<^verbatim>\<open>"\r"\<close> are read as
  \<^verbatim>\<open>"\n"\<close>. Writing is as on POSIX, where \<^verbatim>\<open>"\n"\<close> is written as it is.
\<close>
fun universal_newlines :: "string \<Rightarrow> string" where
  "universal_newlines [] = []"
| "universal_newlines [c] = [if c = CR then NL else c]"
| "universal_newlines (c # d # cs) =
     (if c = CR then (if d = NL then NL # universal_newlines cs else NL # universal_newlines (d # cs))
      else c # universal_newlines (d # cs))"

text \<open>\<^verbatim>\<open>for l in f\<close>: the lines, each with its newline; the last one may have none.\<close>
fun file_lines_aux :: "string \<Rightarrow> string \<Rightarrow> string list" where
  "file_lines_aux cur [] = (if cur = [] then [] else [cur])"
| "file_lines_aux cur (c # cs) =
     (if c = NL then (cur @ [NL]) # file_lines_aux [] cs else file_lines_aux (cur @ [c]) cs)"

definition file_lines :: "string \<Rightarrow> string list" where
  "file_lines text = file_lines_aux [] (universal_newlines text)"

text \<open>\<^verbatim>\<open>main_cats\<close> and \<^verbatim>\<open>sub_cats_to_main_cats\<close>; in a dictionary the last of equal keys wins.\<close>
definition main_cats :: "string set" where
  "main_cats = set (map fst BUGFIX_CATEGORIES)"

definition sub_cats_to_main_cats :: "string \<rightharpoonup> string" where
  "sub_cats_to_main_cats =
     map_of (rev (concat (map (\<lambda>m_cat. map (\<lambda>s_cat. (s_cat, fst m_cat)) (snd m_cat))
                              BUGFIX_CATEGORIES)))"

text \<open>The parameters of \<^verbatim>\<open>release_log_init\<close> that the header is made of;
  \<open>p_branch\<close> is \<^verbatim>\<open>GitRepo(source_dir).branch.decode().strip()\<close>.\<close>
record init_params =
  p_blender_rev :: string
  p_start_sha1 :: string
  p_end_sha1 :: string
  p_rstate :: "string option"
  p_branch :: string

text \<open>The variables of the reading loop.\<close>
record read_state =
  rs_header :: "string list"
  rs_main_cat :: "string option"
  rs_sub_cat :: "string option"
  rs_ignore :: bool
  rs_log :: release_log

text \<open>A line that starts with \<^verbatim>\<open>==\<close> (and, in the main loop, not with \<^verbatim>\<open>===\<close>).\<close>
definition heading2 :: "string \<Rightarrow> string option \<times> string option" where
  "heading2 l =
     (let main_cat = strip l '' =''
      in if main_cat \<notin> main_cats then (sub_cats_to_main_cats main_cat, Some main_cat)
         else (Some main_cat, None))"

text \<open>A line that starts with \<^verbatim>\<open>===\<close>.\<close>
definition heading3 :: "string \<Rightarrow> string option \<times> string option" where
  "heading3 l =
     (let sub_cat = strip l '' =''
      in if sub_cat \<in> dom sub_cats_to_main_cats then (sub_cats_to_main_cats sub_cat, Some sub_cat)
         else if sub_cat \<in> main_cats then (Some sub_cat, None)
         else (None, Some sub_cat))"

text \<open>
  The inner loop \<^verbatim>\<open>for hl in f\<close>, on the lines left in the file: returns the header, the
  ignore flag, the categories when a heading ended the loop, and the lines not yet read.
\<close>
fun header_loop ::
  "string list \<Rightarrow> bool \<Rightarrow> string list
     \<Rightarrow> string list \<times> bool \<times> (string option \<times> string option) option \<times> string list" where
  "header_loop header ignore [] = (header, ignore, None, [])"
| "header_loop header ignore (hl # rest) =
     (if contains hl IGNORE_END_LINE then header_loop header False rest
      else if ignore \<or> contains hl IGNORE_START_LINE then header_loop header True rest
      else (let hl' = strip hl (NL # '' '')
            in if startswith hl' ''=='' then (header, ignore, Some (heading2 hl'), rest)
               else header_loop (header @ [hl']) ignore rest))"

text \<open>\<^verbatim>\<open>release_log["__HEADER__"]\<close> as set after the inner loop.\<close>
definition read_header :: "init_params \<Rightarrow> string list \<Rightarrow> string" where
  "read_header p header =
     (case p_rstate p of
        Some rstate \<Rightarrow>
          join [NL] header @ ''['' @ rstate @ ''] Changes from revision {{GitCommit|''
          @ take 10 (p_start_sha1 p) @ ''}} to {{GitCommit|'' @ take 10 (p_end_sha1 p)
          @ ''}}, inclusive ('' @ [QUOTE, QUOTE] @ p_branch p @ [QUOTE, QUOTE] @ '' branch).''
          @ [NL, NL]
      | None \<Rightarrow>
          join [NL] header @ ''Changes from revision {{GitCommit|''
          @ take 10 (p_start_sha1 p) @ ''}} to {{GitCommit|'' @ take 10 (p_end_sha1 p)
          @ ''}}, inclusive ('' @ [QUOTE, QUOTE] @ p_branch p @ [QUOTE, QUOTE] @ '' branch).''
          @ [NL, NL])"

text \<open>
  The entry branch of the main loop: the line is stored under the current categories
  as reported when it has the bug-report link, and its text after a leading bracketed
  release state is added to that state's list when the state is tracked.
\<close>
definition read_entry :: "read_state \<Rightarrow> string \<Rightarrow> read_state" where
  "read_entry st l =
     (let rl = append_entry (rs_log st) (rs_main_cat st) (rs_sub_cat st)
                 (\<not> contains l ''Fix {{BugReport|'') l;
          l_rstate = strip l ''* '';
          end = find l_rstate '']''
      in if startswith l_rstate ''['' \<and> 0 < end
         then (let rstate = take (nat end - 1) (drop 1 l_rstate)
               in case RSTATES rl rstate of
                    None \<Rightarrow> st\<lparr>rs_log := rl\<rparr>
                  | Some es \<Rightarrow>
                      st\<lparr>rs_log := rl\<lparr>RSTATES := (RSTATES rl)(rstate \<mapsto>
                        es @ [''* '' @ rev (dropWhile is_space (rev (dropWhile is_space
                                        (drop (nat (end + 1)) l_rstate))))])\<rparr>\<rparr>)
         else st\<lparr>rs_log := rl\<rparr>)"

text \<open>One stripped line of the main loop, the header being read already.\<close>
definition read_line :: "read_state \<Rightarrow> string \<Rightarrow> read_state" where
  "read_line st l =
     (if startswith l ''==='' then
        st\<lparr>rs_main_cat := fst (heading3 l), rs_sub_cat := snd (heading3 l)\<rparr>
      else if startswith l ''=='' then
        st\<lparr>rs_main_cat := fst (heading2 l), rs_sub_cat := snd (heading2 l)\<rparr>
      else if contains l ''Fix '' then read_entry st l
      else st)"

text \<open>
  The main loop \<^verbatim>\<open>for l in f\<close>. The first line that is not ignored starts the header and
  the inner loop reads on from the same file; the main loop goes on behind the heading
  that ended the inner loop.
\<close>
function read_lines :: "init_params \<Rightarrow> read_state \<Rightarrow> string list \<Rightarrow> read_state" where
  "read_lines p st [] = st"
| "read_lines p st (l # rest) =
     (if contains l IGNORE_END_LINE then read_lines p (st\<lparr>rs_ignore := False\<rparr>) rest
      else if rs_ignore st \<or> contains l IGNORE_START_LINE
        then read_lines p (st\<lparr>rs_ignore := True\<rparr>) rest
      else if rs_header st = [] then
        (case header_loop [strip l (NL # '' '')] (rs_ignore st) rest of
           (header, ignore, cat, rest') \<Rightarrow>
             read_lines p
               (st\<lparr>rs_header := header, rs_ignore := ignore,
                   rs_main_cat := (case cat of None \<Rightarrow> rs_main_cat st | Some ms \<Rightarrow> fst ms),
                   rs_sub_cat := (case cat of None \<Rightarrow> rs_sub_cat st | Some ms \<Rightarrow> snd ms),
                   rs_log := (rs_log st)\<lparr>HEADER := read_header p header, COUNT := (0, 0)\<rparr>\<rparr>)
               rest')
      else read_lines p (read_line st (strip l (NL # '' ''))) rest)"
  by pat_completeness auto
termination
proof -
  have le: "length (snd (snd (snd (header_loop h ig ls)))) \<le> length ls" for h ig ls
    by (induction ls arbitrary: h ig) (auto simp: Let_def intro: le_SucI)
  have "length rest' < Suc (length ls)" if "(a, b, c, rest') = header_loop h ig ls" for h ig ls a b c rest'
    using le [of h ig ls] that [symmetric] by simp
  then show ?thesis
    by (relation "measure (\<lambda>(p, st, ls). length ls)") auto
qed

text \<open>
  \<^verbatim>\<open>release_log_init\<close>; \<open>file\<close> is the content of the file at \<^verbatim>\<open>path\<close>, \<open>None\<close> when there
  is no such file.
\<close>
definition release_log_init ::
  "string option \<Rightarrow> init_params \<Rightarrow> string list \<Rightarrow> release_log" where
  "release_log_init file p rstate_list =
     (let header =
            (case p_rstate p of
               Some rstate \<Rightarrow>
                 ''= Blender '' @ p_blender_rev p @ '': Bug Fixes ='' @ [NL, NL]
                 @ ''['' @ rstate @ ''] Changes from revision {{GitCommit|rB''
                 @ take 10 (p_start_sha1 p) @ ''}} to {{GitCommit|rB'' @ take 10 (p_end_sha1 p)
                 @ ''}}, inclusive.'' @ [NL, NL]
             | None \<Rightarrow>
                 ''= Blender '' @ p_blender_rev p @ '': Bug Fixes ='' @ [NL, NL]
                 @ ''Changes from revision {{GitCommit|rB''
                 @ take 10 (p_start_sha1 p) @ ''}} to {{GitCommit|rB'' @ take 10 (p_end_sha1 p)
                 @ ''}}, inclusive.'' @ [NL, NL]);
          release_log = \<lparr>HEADER = header, COUNT = (0, 0),
                          RSTATES = map_of (map (\<lambda>k. (k, [])) rstate_list),
                          CATS = Map.empty\<rparr>
      in case file of
           None \<Rightarrow> release_log
         | Some text \<Rightarrow>
             rs_log (read_lines p
                       \<lparr>rs_header = [], rs_main_cat = None, rs_sub_cat = None,
                        rs_ignore = False, rs_log = release_log\<rparr>
                       (file_lines text)))"

subsection \<open>Observations on a release log, and a run of the tool\<close>

text \<open>The entries of one (main category, sub-category, reported or unreported) bucket.\<close>
definition entries_of ::
  "release_log \<Rightarrow> string option \<Rightarrow> string option \<Rightarrow> bool \<Rightarrow> string list" where
  "entries_of rl main_cat sub_cat unreported =
     get_list ((if unreported then snd else fst) (get_cat_data rl main_cat)) sub_cat"

text \<open>
  The calls of \<^verbatim>\<open>write_release_log\<close> that the loop of \<^verbatim>\<open>main\<close> makes for the accepted
  commits, one after the other on the same release log; a raise ends the run.
\<close>
fun write_release_logs ::
  "release_log \<Rightarrow> string list \<Rightarrow> (commit \<times> (int \<times> int option) \<times> string option) list
     \<Rightarrow> error + release_log" where
  "write_release_logs rl rstate_list [] = Inr rl"
| "write_release_logs rl rstate_list (call # calls) =
     (case write_release_log rl (fst call) (fst (snd call)) (snd (snd call)) rstate_list of
        Inl e \<Rightarrow> Inl e
      | Inr (rl', text) \<Rightarrow> write_release_logs rl' rstate_list calls)"



subsection \<open>Example inputs\<close>

definition example_params :: init_params where
  "example_params =
     \<lparr>p_blender_rev = ''2.79'', p_start_sha1 = ''aaaaaaaaaaaaaaaa'',
      p_end_sha1 = ''bbbbbbbbbbbbbbbb'', p_rstate = Some ''RC1'', p_branch = ''master''\<rparr>"

definition commit_crash :: commit where
  "commit_crash =
     \<lparr>sha1 = ''0123456789abcdef'', author = ''dev'',
      body = ''Fix T12345: crash on save'' @ [NL, NL] @ ''Longer body''\<rparr>"

definition commit_cleanup :: commit where
  "commit_cleanup =
     \<lparr>sha1 = ''fedcba9876543210'', author = ''dev'', body = ''Cleanup unused var''\<rparr>"

text \<open>A fresh release log with the tracked state \<^verbatim>\<open>RC2\<close>, and two accepted commits tagged
  \<^verbatim>\<open>RC1\<close>: one under Data / Geometry, Mesh Editing, one under Game Engine.\<close>
definition example_log :: release_log where
  "example_log = release_log_init None example_params [''RC2'']"

definition example_calls :: "(commit \<times> (int \<times> int option) \<times> string option) list" where
  "example_calls =
     [(commit_crash, (1, Some 2), Some ''RC1''), (commit_cleanup, (5, None), Some ''RC1'')]"

text \<open>A document edited by hand between two runs: one entry under a heading that is not
  in the category tree and one under the heading \<^verbatim>\<open>UNSORTED\<close>.\<close>
definition example_document :: string where
  "example_document =
     ''= Blender 2.79: Bug Fixes ='' @ [NL, NL]
     @ ''== My Custom =='' @ [NL]
     @ ''* [RC2] Fix {{BugReport|1}}: x ({{GitCommit|rB0123456789}}).'' @ [NL, NL]
     @ ''== UNSORTED =='' @ [NL, NL]
     @ ''* [RC1] Fix unreported: y ({{GitCommit|rBfedcba9876}}).'' @ [NL]"

section \<open>Properties\<close>

subsection \<open>String and substitution lemmas\<close>

lemma py_format_bracket:
  "py_format ''* [%s] %s ({{GitCommit|rB%s}}).'' [r, p, s] =
     Inr (''* ['' @ r @ ''] '' @ p @ '' ({{GitCommit|rB'' @ s @ ''}}).'')"
  by simp

lemma py_format_plain:
  "py_format ''* %s ({{GitCommit|rB%s}}).'' [a, p, s] = Inl TypeError"
  by simp

lemma gen_commit_pretty_None: "gen_commit_pretty c None = Inl TypeError"
  by (simp add: gen_commit_pretty_def split: prod.splits)

lemma gen_commit_pretty_Some:
  "gen_commit_pretty c (Some r) =
     Inr (''* ['' @ r @ ''] '' @ fst (gen_commit_message_pretty c) @ '' ({{GitCommit|rB'' @ take 10 (sha1 c) @ ''}}).'',
          snd (gen_commit_message_pretty c))"
  by (simp add: gen_commit_pretty_def split: prod.splits)

lemma re_sub_aux_no_match: "\<not> re_search m s \<Longrightarrow> re_sub_aux m repl 0 s = s"
  by (induction s) (auto split: option.splits)

lemma re_sub_no_match: "\<not> re_search m s \<Longrightarrow> re_sub m repl s = s"
  by (simp add: re_sub_def re_sub_aux_no_match)

lemma find_from_skip:
  "p \<noteq> [] \<Longrightarrow> hd p \<notin> set xs \<Longrightarrow> find_from i (xs @ ys) p = find_from (i + length xs) ys p"
  by (induction xs arbitrary: i) (auto simp: startswith_def neq_Nil_conv)

lemma rfind_from_short: "length t < length p \<Longrightarrow> rfind_from i t p = -1"
  by (induction t arbitrary: i) (auto simp: startswith_def Let_def)

lemma rfind_from_append:
  "0 \<le> rfind_from (i + length xs) ys p \<Longrightarrow> rfind_from i (xs @ ys) p = rfind_from (i + length xs) ys p"
  by (induction xs arbitrary: i) (auto simp: Let_def)

lemma rfind_from_suffix:
  assumes "length s \<le> 10"
  shows "rfind_from j ('' ({{GitCommit|rB'' @ s @ ''}}).'') ''({{GitCommit|rB'' = int j + 1"
proof -
  have "rfind_from k (s @ ''}}).'') ''({{GitCommit|rB'' = -1" for k
    using assms by (intro rfind_from_short) simp
  then show ?thesis
    by (simp add: startswith_def Let_def)
qed












lemma find_bracket:
  assumes "CHR '']'' \<notin> set r"
  shows "find (''* ['' @ r @ '']'' @ rest) '']'' = 3 + int (length r)"
proof -
  have "find_from (Suc (Suc (Suc 0))) (r @ '']'' @ rest) '']'' =
        find_from (Suc (Suc (Suc 0)) + length r) ('']'' @ rest) '']''"
    using assms by (intro find_from_skip) simp_all
  then show ?thesis
    by (simp add: find_def startswith_def)
qed

lemma drop_prefix_len: "n = length xs \<Longrightarrow> drop n (xs @ ys) = ys"
  by simp

lemma rfind_append_tail:
  assumes "rfind_from (length p) sfx q = int (length p) + 1"
  shows "rfind (p @ sfx) q = int (length p) + 1"
proof -
  have "0 \<le> rfind_from (0 + length p) sfx q" using assms by simp
  then have "rfind_from 0 (p @ sfx) q = rfind_from (0 + length p) sfx q"
    by (rule rfind_from_append)
  then show ?thesis using assms by (simp add: rfind_def)
qed

lemma unprettify_steps:
  assumes "startswith e ''* [''" and "find e '']'' = i" and "0 < i"
    and "drop (nat (i + 2)) e = p @ sfx"
    and "rfind (p @ sfx) ''({{GitCommit|rB'' = int (length p) + 1"
  shows "gen_commit_unprettify e = p"
  using assms by (simp add: gen_commit_unprettify_def Let_def)

lemma unprettify_rendered:
  assumes "CHR '']'' \<notin> set r" and "length s \<le> 10"
  shows "gen_commit_unprettify (''* ['' @ r @ ''] '' @ p @ '' ({{GitCommit|rB'' @ s @ ''}}).'') = p"
proof -
  define sfx where "sfx = '' ({{GitCommit|rB'' @ s @ ''}}).''"
  define e where "e = (''* ['' @ r @ ''] '') @ p @ sfx"
  have st: "startswith e ''* [''" by (simp add: startswith_def e_def)
  have "e = ''* ['' @ r @ '']'' @ ('' '' @ p @ sfx)" by (simp add: e_def)
  then have fd: "find e '']'' = 3 + int (length r)"
    using find_bracket [OF assms(1)] by (simp only:)
  have len: "nat (3 + int (length r) + 2) = length (''* ['' @ r @ ''] '')" by simp
  have dr: "drop (nat (3 + int (length r) + 2)) e = p @ sfx"
    unfolding e_def using len by (rule drop_prefix_len)
  have "rfind_from (length p) sfx ''({{GitCommit|rB'' = int (length p) + 1"
    unfolding sfx_def using assms(2) by (rule rfind_from_suffix)
  then have rf: "rfind (p @ sfx) ''({{GitCommit|rB'' = int (length p) + 1"
    by (rule rfind_append_tail)
  have "gen_commit_unprettify e = p"
    using st fd _ dr rf by (rule unprettify_steps) simp
  then show ?thesis by (simp add: e_def sfx_def)
qed

subsection \<open>Adding an entry\<close>

lemma append_entry_fields:
  "HEADER (append_entry rl m s u e) = HEADER rl"
  "RSTATES (append_entry rl m s u e) = RSTATES rl"
  "COUNT (append_entry rl m s u e) =
     (if u then (fst (COUNT rl), snd (COUNT rl) + 1) else (fst (COUNT rl) + 1, snd (COUNT rl)))"
  by (simp_all add: append_entry_def Let_def split: prod.splits)

lemma append_entry_entries:
  "entries_of (append_entry rl m s u e) m' s' u' =
     (if m' = m \<and> s' = s \<and> u' = u then entries_of rl m s u @ [e] else entries_of rl m' s' u')"
  by (auto simp: append_entry_def entries_of_def get_cat_data_def setdefault_append_def
        get_list_def Let_def split: prod.splits option.splits)

lemma write_release_log_add_returns:
  assumes "write_release_log_add rl c cat rstate = Inr rl'"
  shows "\<exists>m s r e u. rstate = Some r \<and> RSTATES rl r = None
           \<and> gen_commit_pretty c (Some r) = Inr (e, u) \<and> rl' = append_entry rl (Some m) s u e"
proof (cases rstate)
  case None
  then show ?thesis
    using assms
    by (auto simp: write_release_log_add_def gen_commit_pretty_None split: sum.splits option.splits prod.splits)
next
  case (Some r)
  then show ?thesis
    using assms
    by (auto simp: write_release_log_add_def gen_commit_pretty_None append_entry_fields Let_def
        split: sum.splits option.splits prod.splits)
qed

lemma write_release_log_returns:
  assumes "write_release_log rl c cat rstate rstate_list = Inr (rl', doc)"
  shows "\<exists>m s r e u. rstate = Some r \<and> RSTATES rl r = None
           \<and> gen_commit_pretty c (Some r) = Inr (e, u) \<and> rl' = append_entry rl (Some m) s u e"
proof -
  have "write_release_log_add rl c cat rstate = Inr rl'"
    using assms by (auto simp: write_release_log_def split: sum.splits)
  then show ?thesis by (rule write_release_log_add_returns)
qed

lemma write_release_log_count:
  assumes "write_release_log rl c cat rstate rstate_list = Inr (rl', doc)"
  shows "COUNT rl' = (fst (COUNT rl) + 1, snd (COUNT rl)) \<or> COUNT rl' = (fst (COUNT rl), snd (COUNT rl) + 1)"
  using write_release_log_returns [OF assms] by (auto simp: append_entry_fields)

lemma write_release_logs_count:
  "write_release_logs rl rstate_list calls = Inr rl'
     \<Longrightarrow> fst (COUNT rl') + snd (COUNT rl') = fst (COUNT rl) + snd (COUNT rl) + length calls"
proof (induction calls arbitrary: rl)
  case Nil
  then show ?case by simp
next
  case (Cons call calls)
  obtain rl1 doc where
    step: "write_release_log rl (fst call) (fst (snd call)) (snd (snd call)) rstate_list = Inr (rl1, doc)"
    and rest: "write_release_logs rl1 rstate_list calls = Inr rl'"
    using Cons.prems by (auto split: sum.splits)
  have "fst (COUNT rl1) + snd (COUNT rl1) = fst (COUNT rl) + snd (COUNT rl) + 1"
    using write_release_log_count [OF step] by auto
  then show ?case
    using Cons.IH [OF rest] by simp
qed

lemma release_log_init_fresh:
  "COUNT (release_log_init None p rstate_list) = (0, 0)"
  "CATS (release_log_init None p rstate_list) = Map.empty"
  "RSTATES (release_log_init None p rstate_list) = map_of (map (\<lambda>k. (k, [])) rstate_list)"
  by (simp_all add: release_log_init_def Let_def)

subsection \<open>Message transformer: claims\<close>

text \<open>
  C5, as amended: no \<^verbatim>\<open>EmptyMessage\<close> exists in the transformer. For a commit whose
  summary is empty it returns the prose \<^verbatim>\<open>"Fix unreported: "\<close> and flags it unreported.
\<close>
lemma unreported_prefix_fixed:
  "re_sub re_commitify commitify_repl (re_sub re_bugify bugify_repl ''Fix unreported: '') =
     ''Fix unreported: ''"
  by code_simp

theorem empty_summary_returns_prose:
  "gen_commit_summary c = [] \<Longrightarrow> gen_commit_message_pretty c = (''Fix unreported: '', True)"
proof -
  assume h: "gen_commit_summary c = []"
  have "re_sub re_prettify prettify_repl [] = []" by (simp add: re_sub_def)
  then show ?thesis
    using h unreported_prefix_fixed by (simp add: gen_commit_message_pretty_def)
qed

theorem empty_summary_returns_prose_witness:
  "gen_commit_summary \<lparr>sha1 = ''0123456789abcdef'', author = ''dev'', body = '' :.;-''\<rparr> = []
   \<and> gen_commit_message_pretty \<lparr>sha1 = ''0123456789abcdef'', author = ''dev'', body = '' :.;-''\<rparr>
       = (''Fix unreported: '', True)"
proof -
  have h: "gen_commit_summary \<lparr>sha1 = ''0123456789abcdef'', author = ''dev'', body = '' :.;-''\<rparr> = []"
    by code_simp
  show ?thesis
    using h empty_summary_returns_prose [OF h] by simp
qed

theorem empty_summary_counterexample:
  "gen_commit_summary \<lparr>sha1 = ''0123456789abcdef'', author = ''dev'', body = []\<rparr> = []
   \<and> gen_commit_message_pretty \<lparr>sha1 = ''0123456789abcdef'', author = ''dev'', body = []\<rparr>
       = (''Fix unreported: '', True)"
  by code_simp

text \<open>
  C7, as amended: for every entry the renderer produced with a release state that
  contains no closing bracket, \<open>gen_commit_unprettify\<close> returns exactly the prose; the
  example of the specification is an instance.
\<close>
theorem unprettify_inverse:
  "(CHR '']'' \<notin> set r \<longrightarrow> gen_commit_pretty c (Some r) = Inr (e, u)
      \<longrightarrow> gen_commit_unprettify e = fst (gen_commit_message_pretty c))
   \<and> gen_commit_unprettify ''* [RC2] Fix {{BugReport|999}}: leak ({{GitCommit|rBabc1234567}}).''
       = ''Fix {{BugReport|999}}: leak''"
proof (intro conjI impI)
  assume r: "CHR '']'' \<notin> set r" and e: "gen_commit_pretty c (Some r) = Inr (e, u)"
  have "e = ''* ['' @ r @ ''] '' @ fst (gen_commit_message_pretty c) @
            '' ({{GitCommit|rB'' @ take 10 (sha1 c) @ ''}}).''"
    using e by (simp only: gen_commit_pretty_Some sum.inject prod.inject)
  moreover have le: "length (take 10 (sha1 c)) \<le> 10" by simp
  moreover have "gen_commit_unprettify (''* ['' @ r @ ''] '' @ fst (gen_commit_message_pretty c) @
            '' ({{GitCommit|rB'' @ take 10 (sha1 c) @ ''}}).'') = fst (gen_commit_message_pretty c)"
    using r le by (rule unprettify_rendered)
  ultimately show "gen_commit_unprettify e = fst (gen_commit_message_pretty c)"
    by (simp only:)
next
  have "CHR '']'' \<notin> set ''RC2''" and "length ''abc1234567'' \<le> 10" by simp_all
  then have "gen_commit_unprettify (''* ['' @ ''RC2'' @ ''] '' @ ''Fix {{BugReport|999}}: leak'' @
       '' ({{GitCommit|rB'' @ ''abc1234567'' @ ''}}).'') = ''Fix {{BugReport|999}}: leak''"
    by (rule unprettify_rendered)
  then show "gen_commit_unprettify ''* [RC2] Fix {{BugReport|999}}: leak ({{GitCommit|rBabc1234567}}).''
       = ''Fix {{BugReport|999}}: leak''"
    by simp
qed

theorem unprettify_inverse_witness:
  "CHR '']'' \<notin> set ''RC2''
   \<and> gen_commit_pretty \<lparr>sha1 = ''abc1234567890'', author = ''dev'', body = ''Fix T999: leak''\<rparr> (Some ''RC2'')
       = Inr (''* [RC2] Fix {{BugReport|999}}: leak ({{GitCommit|rBabc1234567}}).'', False)
   \<and> gen_commit_unprettify ''* [RC2] Fix {{BugReport|999}}: leak ({{GitCommit|rBabc1234567}}).''
       = fst (gen_commit_message_pretty \<lparr>sha1 = ''abc1234567890'', author = ''dev'', body = ''Fix T999: leak''\<rparr>)"
proof -
  let ?c = "\<lparr>sha1 = ''abc1234567890'', author = ''dev'', body = ''Fix T999: leak''\<rparr>"
  let ?e = "''* [RC2] Fix {{BugReport|999}}: leak ({{GitCommit|rBabc1234567}}).''"
  have h1: "CHR '']'' \<notin> set ''RC2''" by simp
  have h2: "gen_commit_pretty ?c (Some ''RC2'') = Inr (?e, False)" by code_simp
  have "gen_commit_unprettify ?e = fst (gen_commit_message_pretty ?c)"
    using unprettify_inverse [of "''RC2''" ?c ?e False] h1 h2 by blast
  then show ?thesis using h1 h2 by blast
qed

theorem unprettify_inverse_counterexample:
  "gen_commit_pretty \<lparr>sha1 = ''0123456789abcdef'', author = ''dev'', body = ''Cleanup''\<rparr> (Some ''a]b'')
     = Inr (''* [a]b] Fix unreported: Cleanup ({{GitCommit|rB0123456789}}).'', True)
   \<and> fst (gen_commit_message_pretty \<lparr>sha1 = ''0123456789abcdef'', author = ''dev'', body = ''Cleanup''\<rparr>)
     = ''Fix unreported: Cleanup''
   \<and> gen_commit_unprettify ''* [a]b] Fix unreported: Cleanup ({{GitCommit|rB0123456789}}).''
     = ''] Fix unreported: Cleanup''"
  by code_simp

text \<open>
  C9, as amended: the example of the specification holds; for every commit whose summary
  has no match of the fix pattern, the transformer flags the result unreported and
  returns the summary prefixed with \<^verbatim>\<open>"Fix unreported: "\<close> after the bug-number and the
  commit-reference rewrites were applied to that prefixed text; it is the prefixed
  summary itself when neither of the two patterns occurs in it.
\<close>
theorem transformer_unreported:
  "gen_commit_message_pretty
       \<lparr>sha1 = ''0123456789abcdef'', author = ''dev'',
        body = ''Fix T12345: crash on save'' @ [NL, NL] @ ''Longer body''\<rparr>
     = (''Fix {{BugReport|12345}}: crash on save'', False)
   \<and> (\<not> re_search re_prettify (gen_commit_summary c) \<longrightarrow>
        gen_commit_message_pretty c =
          (re_sub re_commitify commitify_repl
             (re_sub re_bugify bugify_repl (''Fix unreported: '' @ gen_commit_summary c)), True))
   \<and> (\<not> re_search re_prettify (gen_commit_summary c)
        \<and> \<not> re_search re_bugify (''Fix unreported: '' @ gen_commit_summary c)
        \<and> \<not> re_search re_commitify (''Fix unreported: '' @ gen_commit_summary c) \<longrightarrow>
        gen_commit_message_pretty c = (''Fix unreported: '' @ gen_commit_summary c, True))"
proof (intro conjI impI)
  show "gen_commit_message_pretty
       \<lparr>sha1 = ''0123456789abcdef'', author = ''dev'',
        body = ''Fix T12345: crash on save'' @ [NL, NL] @ ''Longer body''\<rparr>
     = (''Fix {{BugReport|12345}}: crash on save'', False)"
    by code_simp
next
  assume "\<not> re_search re_prettify (gen_commit_summary c)"
  then have "re_sub re_prettify prettify_repl (gen_commit_summary c) = gen_commit_summary c"
    by (rule re_sub_no_match)
  then show "gen_commit_message_pretty c =
          (re_sub re_commitify commitify_repl
             (re_sub re_bugify bugify_repl (''Fix unreported: '' @ gen_commit_summary c)), True)"
    by (simp add: gen_commit_message_pretty_def Let_def)
next
  let ?p = "''Fix unreported: '' @ gen_commit_summary c"
  assume h: "\<not> re_search re_prettify (gen_commit_summary c)
        \<and> \<not> re_search re_bugify ?p \<and> \<not> re_search re_commitify ?p"
  have a: "re_sub re_prettify prettify_repl (gen_commit_summary c) = gen_commit_summary c"
    using h by (intro re_sub_no_match) simp
  have b: "re_sub re_bugify bugify_repl ?p = ?p"
    using h by (intro re_sub_no_match) simp
  have d: "re_sub re_commitify commitify_repl ?p = ?p"
    using h by (intro re_sub_no_match) simp
  have "gen_commit_message_pretty c =
          (re_sub re_commitify commitify_repl (re_sub re_bugify bugify_repl ?p), True)"
    using a by (simp add: gen_commit_message_pretty_def Let_def)
  then show "gen_commit_message_pretty c = (?p, True)"
    by (simp only: b d)
qed

theorem transformer_unreported_witness:
  "\<not> re_search re_prettify
        (gen_commit_summary \<lparr>sha1 = ''0123456789abcdef'', author = ''dev'', body = ''Cleanup unused var''\<rparr>)
   \<and> \<not> re_search re_bugify (''Fix unreported: '' @
        gen_commit_summary \<lparr>sha1 = ''0123456789abcdef'', author = ''dev'', body = ''Cleanup unused var''\<rparr>)
   \<and> \<not> re_search re_commitify (''Fix unreported: '' @
        gen_commit_summary \<lparr>sha1 = ''0123456789abcdef'', author = ''dev'', body = ''Cleanup unused var''\<rparr>)
   \<and> gen_commit_message_pretty \<lparr>sha1 = ''0123456789abcdef'', author = ''dev'', body = ''Cleanup unused var''\<rparr>
       = (''Fix unreported: Cleanup unused var'', True)"
proof -
  let ?c = "\<lparr>sha1 = ''0123456789abcdef'', author = ''dev'', body = ''Cleanup unused var''\<rparr>"
  have s: "gen_commit_summary ?c = ''Cleanup unused var''" by code_simp
  have h1: "\<not> re_search re_prettify (gen_commit_summary ?c)" by code_simp
  have h2: "\<not> re_search re_bugify (''Fix unreported: '' @ gen_commit_summary ?c)" by code_simp
  have h3: "\<not> re_search re_commitify (''Fix unreported: '' @ gen_commit_summary ?c)" by code_simp
  have "gen_commit_message_pretty ?c = (''Fix unreported: '' @ gen_commit_summary ?c, True)"
    using transformer_unreported [of ?c] h1 h2 h3 by blast
  then have "gen_commit_message_pretty ?c = (''Fix unreported: Cleanup unused var'', True)"
    using s by simp
  then show ?thesis using h1 h2 h3 by blast
qed

theorem transformer_unreported_counterexample:
  "\<not> re_search re_prettify
        (gen_commit_summary \<lparr>sha1 = ''0123456789abcdef'', author = ''dev'', body = ''Cleanup T123''\<rparr>)
   \<and> gen_commit_summary \<lparr>sha1 = ''0123456789abcdef'', author = ''dev'', body = ''Cleanup T123''\<rparr>
       = ''Cleanup T123''
   \<and> gen_commit_message_pretty \<lparr>sha1 = ''0123456789abcdef'', author = ''dev'', body = ''Cleanup T123''\<rparr>
       = (''Fix unreported: Cleanup {{BugReport|123}}'', True)"
  by code_simp




subsection \<open>Release log: claims\<close>

text \<open>
  C4: \<open>gen_commit_pretty\<close> without a release state does not return the line without the
  bracketed state: its format string has two conversions for three arguments, and the
  call raises \<^verbatim>\<open>TypeError\<close> for every commit. So does \<open>write_release_log\<close> whenever the
  release state is a tracked one, since it then calls \<^verbatim>\<open>gen_commit_pretty(c)\<close>.
\<close>
theorem gen_commit_pretty_plain_raises:
  "gen_commit_pretty c None = Inl TypeError
   \<and> write_release_log (rl\<lparr>RSTATES := (RSTATES rl)(r \<mapsto> es)\<rparr>) c (0, None) (Some r) rstate_list
       = Inl TypeError"
  by (simp add: gen_commit_pretty_None write_release_log_def write_release_log_add_def
      py_index_def BUGFIX_CATEGORIES_def gen_commit_pretty_Some append_entry_fields)

text \<open>
  C8: starting from the empty release log, after \<open>N\<close> calls of \<open>write_release_log\<close> that
  returned, the two counters add up to \<open>N\<close>; each call that returns increments exactly
  one of them by one.
\<close>
theorem count_conservation:
  "(write_release_logs (release_log_init None p rstate_list) rstate_list calls = Inr rl
      \<longrightarrow> fst (COUNT rl) + snd (COUNT rl) = length calls)
   \<and> (write_release_log rl0 c cat rstate rstate_list = Inr (rl1, doc)
      \<longrightarrow> COUNT rl1 = (fst (COUNT rl0) + 1, snd (COUNT rl0))
          \<or> COUNT rl1 = (fst (COUNT rl0), snd (COUNT rl0) + 1))"
  using write_release_logs_count [of "release_log_init None p rstate_list" rstate_list calls rl]
    write_release_log_count [of rl0 c cat rstate rstate_list rl1 doc]
  by (simp add: release_log_init_fresh)

lemma example_run_returns:
  "\<not> isl (write_release_logs example_log [''RC2''] example_calls)"
  by code_simp

lemma example_step_returns:
  "\<not> isl (write_release_log example_log commit_crash (1, Some 2) (Some ''RC1'') [''RC2''])"
  by code_simp

theorem count_conservation_witness:
  "\<not> isl (write_release_logs example_log [''RC2''] example_calls)
   \<and> fst (COUNT (projr (write_release_logs example_log [''RC2''] example_calls)))
       + snd (COUNT (projr (write_release_logs example_log [''RC2''] example_calls))) = 2
   \<and> \<not> isl (write_release_log example_log commit_crash (1, Some 2) (Some ''RC1'') [''RC2''])
   \<and> (COUNT (fst (projr (write_release_log example_log commit_crash (1, Some 2) (Some ''RC1'') [''RC2''])))
         = (fst (COUNT example_log) + 1, snd (COUNT example_log))
       \<or> COUNT (fst (projr (write_release_log example_log commit_crash (1, Some 2) (Some ''RC1'') [''RC2''])))
         = (fst (COUNT example_log), snd (COUNT example_log) + 1))"
proof -
  let ?X = "write_release_logs example_log [''RC2''] example_calls"
  let ?Y = "write_release_log example_log commit_crash (1, Some 2) (Some ''RC1'') [''RC2'']"
  have x: "?X = Inr (projr ?X)"
    using example_run_returns by simp
  have y: "?Y = Inr (fst (projr ?Y), snd (projr ?Y))"
    using example_step_returns by simp
  have len: "length example_calls = 2" by (simp add: example_calls_def)
  show ?thesis
    using count_conservation [of example_params "[''RC2'']" example_calls "projr ?X"
        example_log commit_crash "(1, Some 2)" "Some ''RC1''" "fst (projr ?Y)" "snd (projr ?Y)"]
      x y len example_run_returns example_step_returns
    unfolding example_log_def [symmetric] by argo
qed

text \<open>
  C10: a call of \<open>write_release_log\<close> that returns has appended one entry at the end of
  one bucket and left every other bucket, the header and the release-state lists as they
  were. A call whose release state is tracked does not return: it raises \<^verbatim>\<open>TypeError\<close>
  where the claim has it append to the list of that state.
\<close>
theorem add_entry_frame:
  "(write_release_log rl c cat rstate rstate_list = Inr (rl', doc) \<longrightarrow>
      (\<exists>m s u e. \<forall>m' s' u'.
          entries_of rl' m' s' u' =
            (if m' = m \<and> s' = s \<and> u' = u then entries_of rl m s u @ [e]
             else entries_of rl m' s' u'))
      \<and> HEADER rl' = HEADER rl \<and> RSTATES rl' = RSTATES rl)
   \<and> write_release_log (rl\<lparr>RSTATES := (RSTATES rl)(r \<mapsto> es)\<rparr>) c (0, None) (Some r) rstate_list
       = Inl TypeError"
proof (intro conjI impI)
  assume "write_release_log rl c cat rstate rstate_list = Inr (rl', doc)"
  then obtain m s r0 e u where rl': "rl' = append_entry rl (Some m) s u e"
    using write_release_log_returns by blast
  show "\<exists>m s u e. \<forall>m' s' u'.
          entries_of rl' m' s' u' =
            (if m' = m \<and> s' = s \<and> u' = u then entries_of rl m s u @ [e]
             else entries_of rl m' s' u')"
    unfolding rl' using append_entry_entries by blast
  show "HEADER rl' = HEADER rl" "RSTATES rl' = RSTATES rl"
    unfolding rl' by (simp_all add: append_entry_fields)
next
  show "write_release_log (rl\<lparr>RSTATES := (RSTATES rl)(r \<mapsto> es)\<rparr>) c (0, None) (Some r) rstate_list
       = Inl TypeError"
    by (simp add: gen_commit_pretty_None write_release_log_def write_release_log_add_def
      py_index_def BUGFIX_CATEGORIES_def gen_commit_pretty_Some append_entry_fields)
qed

theorem add_entry_frame_witness:
  "\<not> isl (write_release_log example_log commit_crash (1, Some 2) (Some ''RC1'') [''RC2''])
   \<and> HEADER (fst (projr (write_release_log example_log commit_crash (1, Some 2) (Some ''RC1'') [''RC2''])))
       = HEADER example_log
   \<and> RSTATES (fst (projr (write_release_log example_log commit_crash (1, Some 2) (Some ''RC1'') [''RC2''])))
       = RSTATES example_log"
proof -
  let ?Y = "write_release_log example_log commit_crash (1, Some 2) (Some ''RC1'') [''RC2'']"
  have y: "?Y = Inr (fst (projr ?Y), snd (projr ?Y))"
    using example_step_returns by simp
  show ?thesis
    using add_entry_frame [of example_log commit_crash "(1, Some 2)" "Some ''RC1''" "[''RC2'']"
        "fst (projr ?Y)" "snd (projr ?Y)"] y example_step_returns
    by blast
qed

subsection \<open>Rendering: lemmas\<close>











text \<open>
  C2: the entries under a heading that is not in the category tree, and those under the
  heading \<^verbatim>\<open>UNSORTED\<close> itself, are read into the bucket of the main category \<^verbatim>\<open>None\<close>
  under the heading's name as sub-category. The renderer only looks at the
  sub-category \<^verbatim>\<open>None\<close> of that bucket: after the next accepted commit the rewritten
  document holds neither of the two entries, although both are counted.
\<close>
theorem unknown_heading_entries_lost:
  "entries_of (release_log_init (Some example_document) example_params [''RC2''])
       None (Some ''My Custom'') False
     = [''* [RC2] Fix {{BugReport|1}}: x ({{GitCommit|rB0123456789}}).'']
   \<and> entries_of (release_log_init (Some example_document) example_params [''RC2''])
       None (Some ''UNSORTED'') True
     = [''* [RC1] Fix unreported: y ({{GitCommit|rBfedcba9876}}).'']
   \<and> COUNT (release_log_init (Some example_document) example_params [''RC2'']) = (1, 1)
   \<and> release_log_lines (release_log_init (Some example_document) example_params [''RC2'']) = []
   \<and> \<not> isl (write_release_log (release_log_init (Some example_document) example_params [''RC2''])
                commit_cleanup (5, None) (Some ''RC1'') [''RC2''])
   \<and> release_log_lines (fst (projr
         (write_release_log (release_log_init (Some example_document) example_params [''RC2''])
            commit_cleanup (5, None) (Some ''RC1'') [''RC2'']))) =
       [''== Game Engine =='',
        ''* [RC1] Fix unreported: Cleanup unused var ({{GitCommit|rBfedcba9876}}).'', []]"
  by code_simp

subsection \<open>Bars and what follows them\<close>

lemma startswith_Cons:
  "startswith (c # cs) (x # w) = (c = x \<and> startswith cs w)"
  by (auto simp: startswith_def)

lemma startswith_Nil [simp]: "startswith s []"
  by (simp add: startswith_def)

lemma startswith_Nil_left: "startswith [] (x # w) = False"
  by (simp add: startswith_def)

lemma startswith_iff: "startswith s p = (\<exists>v. s = p @ v)"
proof
  assume "startswith s p"
  then have "s = p @ drop (length p) s"
    by (metis append_take_drop_id startswith_def)
  then show "\<exists>v. s = p @ v" ..
next
  assume "\<exists>v. s = p @ v"
  then show "startswith s p" by (auto simp: startswith_def)
qed

lemma contains_iff: "contains s p = (\<exists>u v. s = u @ p @ v)"
proof (induction s)
  case Nil
  then show ?case by auto
next
  case (Cons c cs)
  show ?case
  proof
    assume "contains (c # cs) p"
    then consider "startswith (c # cs) p" | "contains cs p" by auto
    then show "\<exists>u v. c # cs = u @ p @ v"
    proof cases
      case 1
      then obtain v where "c # cs = p @ v" using startswith_iff by blast
      then have "c # cs = [] @ p @ v" by simp
      then show ?thesis by blast
    next
      case 2
      then obtain u v where "cs = u @ p @ v" using Cons.IH by blast
      then have "c # cs = (c # u) @ p @ v" by simp
      then show ?thesis by blast
    qed
  next
    assume "\<exists>u v. c # cs = u @ p @ v"
    then obtain u v where e: "c # cs = u @ p @ v" by blast
    show "contains (c # cs) p"
    proof (cases u)
      case Nil
      then have "startswith (c # cs) p" using e startswith_iff by auto
      then show ?thesis by simp
    next
      case (Cons a u')
      then have "cs = u' @ p @ v" using e by simp
      then have "contains cs p" using Cons.IH by blast
      then show ?thesis by simp
    qed
  qed
qed

lemma contains_middle: "contains s (a @ b @ c) \<Longrightarrow> contains s b"
proof -
  assume "contains s (a @ b @ c)"
  then obtain u v where "s = u @ (a @ b @ c) @ v" using contains_iff by blast
  then have "s = (u @ a) @ b @ (c @ v)" by simp
  then show ?thesis using contains_iff by blast
qed

lemma contains_drop: "contains (drop k s) p \<Longrightarrow> contains s p"
proof -
  assume "contains (drop k s) p"
  then obtain u v where "drop k s = u @ p @ v" using contains_iff by blast
  then have "s = (take k s @ u) @ p @ v"
    by (metis append.assoc append_take_drop_id)
  then show ?thesis using contains_iff by blast
qed

lemma contains_take: "contains (take k s) p \<Longrightarrow> contains s p"
proof -
  assume "contains (take k s) p"
  then obtain u v where "take k s = u @ p @ v" using contains_iff by blast
  then have "s = u @ p @ (v @ drop k s)"
    by (metis append.assoc append_take_drop_id)
  then show ?thesis using contains_iff by blast
qed

lemma contains_bar_Cons:
  "contains (c # cs) (CHR ''|'' # w) = ((c = CHR ''|'' \<and> startswith cs w) \<or> contains cs (CHR ''|'' # w))"
  by (simp add: startswith_Cons)

lemma contains_bar_Nil: "contains [] (CHR ''|'' # w) = False"
  by simp

lemma contains_bar_skip:
  "CHR ''|'' \<notin> set xs \<Longrightarrow> contains (xs @ ys) (CHR ''|'' # w) = contains ys (CHR ''|'' # w)"
  by (induction xs) (auto simp: startswith_Cons)

lemma contains_pair_append:
  "contains (xs @ ys) [CHR ''|'', x] =
     (contains xs [CHR ''|'', x] \<or> contains ys [CHR ''|'', x]
      \<or> (xs \<noteq> [] \<and> last xs = CHR ''|'' \<and> startswith ys [x]))"
proof (induction xs)
  case Nil
  then show ?case by simp
next
  case (Cons a xs)
  show ?case
  proof (cases xs)
    case Nil
    then show ?thesis by (auto simp: startswith_Cons startswith_Nil_left)
  next
    case (Cons b xs')
    then show ?thesis using Cons.IH by (auto simp: startswith_Cons)
  qed
qed

lemma re_sub_aux_drop: "re_sub_aux m repl k s = re_sub_aux m repl 0 (drop k s)"
proof (induction s arbitrary: k)
  case Nil
  then show ?case by simp
next
  case (Cons c cs)
  then show ?case by (cases k) simp_all
qed

lemma digit_not_bar: "is_digit d \<Longrightarrow> d \<noteq> CHR ''|''"
  by (auto simp: is_digit_def)

lemma digit_not_brace: "is_digit d \<Longrightarrow> d \<noteq> CHR ''{''"
  by (auto simp: is_digit_def)

lemma re_bugify_match:
  assumes "re_bugify (c # cs) = Some (gs, n)"
  shows "\<exists>ds. gs = [ds] \<and> ds \<noteq> [] \<and> (\<forall>d\<in>set ds. is_digit d) \<and> c = CHR ''T''"
proof -
  have "\<forall>d\<in>set (takeWhile is_digit cs). is_digit d"
    by (auto dest: set_takeWhileD)
  then show ?thesis
    using assms by (auto simp: re_bugify_def Let_def split: if_splits)
qed

lemma bugify_head:
  assumes "startswith (re_sub_aux re_bugify bugify_repl 0 s) ''{''"
  shows "startswith s ''{'' \<or> startswith s ''T''"
proof (cases s)
  case Nil
  then show ?thesis using assms by (simp add: startswith_Nil_left)
next
  case (Cons c cs)
  show ?thesis
  proof (cases "re_bugify (c # cs)")
    case None
    then show ?thesis using assms Cons by (simp add: startswith_Cons)
  next
    case (Some a)
    obtain gs n where "a = (gs, n)" by (cases a)
    then have "c = CHR ''T''" using Some re_bugify_match by blast
    then show ?thesis using Cons by (simp add: startswith_Cons)
  qed
qed

lemma bugify_template:
  assumes "ds \<noteq> []" and "\<forall>d\<in>set ds. is_digit d"
  shows "contains (bugify_repl [ds] @ rest) (CHR ''|'' # CHR ''{'' # w) = contains rest (CHR ''|'' # CHR ''{'' # w)"
proof -
  have nb: "CHR ''|'' \<notin> set (ds @ ''}}'')"
    using assms(2) digit_not_bar by auto
  obtain d ds' where ds: "ds = d # ds'" using assms(1) by (cases ds) auto
  have "d \<noteq> CHR ''{''" using assms(2) ds digit_not_brace by auto
  then have ns: "\<not> startswith (ds @ ''}}'' @ rest) (CHR ''{'' # w)"
    using ds by (simp add: startswith_Cons)
  have "contains (bugify_repl [ds] @ rest) (CHR ''|'' # CHR ''{'' # w) =
        contains (''{{BugReport'' @ (CHR ''|'' # (ds @ ''}}'' @ rest))) (CHR ''|'' # CHR ''{'' # w)"
    by (simp add: bugify_repl_def)
  also have "\<dots> = contains (CHR ''|'' # (ds @ ''}}'' @ rest)) (CHR ''|'' # CHR ''{'' # w)"
    by (rule contains_bar_skip) simp
  also have "\<dots> = contains ((ds @ ''}}'') @ rest) (CHR ''|'' # CHR ''{'' # w)"
    using ns by (simp only: contains_bar_Cons append_assoc) simp
  also have "\<dots> = contains rest (CHR ''|'' # CHR ''{'' # w)"
    using nb by (rule contains_bar_skip)
  finally show ?thesis .
qed

lemma bugify_no_bar_brace:
  "\<not> contains s ''|{'' \<Longrightarrow> \<not> contains s ''|T''
     \<Longrightarrow> \<not> contains (re_sub_aux re_bugify bugify_repl 0 s) ''|{''"
proof (induction "length s" arbitrary: s rule: less_induct)
  case less
  show ?case
  proof (cases s)
    case Nil
    then show ?thesis by simp
  next
    case (Cons c cs)
    have cs1: "\<not> contains cs ''|{''" and cs2: "\<not> contains cs ''|T''"
      using less.prems Cons by (simp_all add: startswith_Cons)
    show ?thesis
    proof (cases "re_bugify (c # cs)")
      case None
      have ih: "\<not> contains (re_sub_aux re_bugify bugify_repl 0 cs) ''|{''"
        using less.hyps [of cs] cs1 cs2 Cons by simp
      have "\<not> (c = CHR ''|'' \<and> startswith (re_sub_aux re_bugify bugify_repl 0 cs) ''{'')"
      proof
        assume a: "c = CHR ''|'' \<and> startswith (re_sub_aux re_bugify bugify_repl 0 cs) ''{''"
        then have "startswith cs ''{'' \<or> startswith cs ''T''" using bugify_head by blast
        then have "contains (c # cs) ''|{'' \<or> contains (c # cs) ''|T''"
          using a by (auto simp: startswith_Cons)
        then show False using less.prems Cons by blast
      qed
      then show ?thesis
        using ih None Cons by (simp add: startswith_Cons)
    next
      case (Some a)
      obtain gs n where a: "a = (gs, n)" by (cases a)
      obtain ds where gs: "gs = [ds]" and ds: "ds \<noteq> []" "\<forall>d\<in>set ds. is_digit d"
        using Some a re_bugify_match by blast
      let ?rest = "re_sub_aux re_bugify bugify_repl 0 (drop (n - 1) cs)"
      have "\<not> contains (drop (n - 1) cs) ''|{''" "\<not> contains (drop (n - 1) cs) ''|T''"
        using cs1 cs2 contains_drop by blast+
      then have ih: "\<not> contains ?rest ''|{''"
        using less.hyps [of "drop (n - 1) cs"] Cons by simp
      have out: "re_sub_aux re_bugify bugify_repl 0 s = bugify_repl [ds] @ ?rest"
        using Some a gs Cons re_sub_aux_drop [of re_bugify bugify_repl "n - 1" cs] by simp
      show ?thesis
        unfolding out using bugify_template [OF ds, of ?rest "[]"] ih by simp
    qed
  qed
qed

end
